theory Spec2Isabelle
  imports Complex_Main "HOL-Library.Word"
begin

section \<open>Strings of the source language\<close>

text \<open>
  A TypeScript string is a sequence of UTF-16 code units, and \<open>length\<close>, \<open>indexOf\<close>
  and \<open>slice\<close> count code units. A literal of the source is written \<open>js ''...''\<close>.
\<close>

type_synonym code_unit = "16 word"
type_synonym jsstring = "code_unit list"

definition js :: "string \<Rightarrow> jsstring" where
  "js s = map of_char s"

text \<open>
  \<open>String.prototype.toLowerCase\<close>, on the range of code units where it is reproduced
  here: U+0000 to U+00FF (Basic Latin and Latin-1 Supplement: A-Z and the capital
  letters U+00C0 to U+00DE other than the multiplication sign move up by 0x20) and
  U+0130 (capital I with dot above), the one character whose lower case is two code
  units (U+0069 U+0307). The source's function also maps the cased characters above
  U+00FF, works on code points and has a rule for the final sigma; none of that is
  reproduced, such code units are left as they are. Every statement below that depends
  on the lower case of a text or needle is therefore either about strings of code units
  up to U+00FF, or an evaluation at a string of code units up to U+00FF and U+0130.
\<close>

definition toLowerUnit :: "code_unit \<Rightarrow> jsstring" where
  "toLowerUnit c =
     (if c = 0x130 then [0x69, 0x307]
      else if (0x41 \<le> c \<and> c \<le> 0x5A) \<or> (0xC0 \<le> c \<and> c \<le> 0xDE \<and> c \<noteq> 0xD7)
        then [c + 0x20]
      else [c])"

definition toLowerCase :: "jsstring \<Rightarrow> jsstring" where
  "toLowerCase s = concat (map toLowerUnit s)"

text \<open>\<open>String.prototype.startsWith\<close> (also used to test a match at a position).\<close>

definition startsWith :: "'a list \<Rightarrow> 'a list \<Rightarrow> bool" where
  "startsWith s p = (take (length p) s = p)"

text \<open>
  \<open>String.prototype.indexOf\<close>: the first position at which the needle starts, or \<open>-1\<close>.
  The empty needle is found at position 0 of every string.
\<close>

fun indexOfFrom :: "jsstring \<Rightarrow> jsstring \<Rightarrow> int \<Rightarrow> int" where
  "indexOfFrom [] n k = (if n = [] then k else -1)"
| "indexOfFrom (c # cs) n k = (if startsWith (c # cs) n then k else indexOfFrom cs n (k + 1))"

definition indexOf :: "jsstring \<Rightarrow> jsstring \<Rightarrow> int" where
  "indexOf s n = indexOfFrom s n 0"

text \<open>
  \<open>slice(a, b)\<close> of strings and arrays: a negative index counts from the end, both
  indices are clamped to the length, and an empty range gives the empty sequence.
  \<open>sliceFrom\<close> is the one-argument form.
\<close>

definition relIndex :: "nat \<Rightarrow> int \<Rightarrow> nat" where
  "relIndex len a = (if a < 0 then nat (max (int len + a) 0) else min (nat a) len)"

definition slice :: "'a list \<Rightarrow> int \<Rightarrow> int \<Rightarrow> 'a list" where
  "slice xs a b =
     (let from = relIndex (length xs) a; to = relIndex (length xs) b
      in take (to - from) (drop from xs))"

definition sliceFrom :: "'a list \<Rightarrow> int \<Rightarrow> 'a list" where
  "sliceFrom xs a = drop (relIndex (length xs) a) xs"

text \<open>\<open>Array.prototype.join\<close> on an array of strings.\<close>

fun join :: "jsstring \<Rightarrow> jsstring list \<Rightarrow> jsstring" where
  "join sep [] = []"
| "join sep [x] = x"
| "join sep (x # y # ys) = x @ sep @ join sep (y # ys)"

section \<open>Regular expressions of the rule catalogue\<close>

text \<open>
  The triggers are alternations of literals tested with the \<open>i\<close> flag and without the
  \<open>u\<close> flag. Every character of the patterns is ASCII; a code unit of the text then
  matches a pattern character exactly when both have the same ASCII upper case (the
  canonicalisation of the \<open>i\<close> flag never maps a code unit above U+007F into ASCII).
\<close>

definition canonicalize :: "code_unit \<Rightarrow> code_unit" where
  "canonicalize c = (if 0x61 \<le> c \<and> c \<le> 0x7A then c - 0x20 else c)"

definition literalAtCI :: "jsstring \<Rightarrow> jsstring \<Rightarrow> bool" where
  "literalAtCI p s = (map canonicalize (take (length p) s) = map canonicalize p)"

text \<open>\<open>/p1|p2|.../i.test(s)\<close>: some alternative matches at some start position.\<close>

fun regexTestCI :: "jsstring list \<Rightarrow> jsstring \<Rightarrow> bool" where
  "regexTestCI alts [] = list_ex (\<lambda>p. literalAtCI p []) alts"
| "regexTestCI alts (c # cs) =
     (list_ex (\<lambda>p. literalAtCI p (c # cs)) alts \<or> regexTestCI alts cs)"

text \<open>
  \<open>/\b(n1|n2|...)\b/.test(s)\<close>, case-sensitive. \<open>\b\<close> holds at a position when exactly
  one of the code units before and after it is a word character \<open>[A-Za-z0-9_]\<close>; the
  ends of the string count as non-word. The scan carries whether the previous code
  unit was a word character.
\<close>

definition isWordChar :: "code_unit \<Rightarrow> bool" where
  "isWordChar c =
     ((0x30 \<le> c \<and> c \<le> 0x39) \<or> (0x41 \<le> c \<and> c \<le> 0x5A) \<or> c = 0x5F \<or> (0x61 \<le> c \<and> c \<le> 0x7A))"

definition boundary :: "bool \<Rightarrow> jsstring \<Rightarrow> bool" where
  "boundary prevWord rest = (prevWord \<noteq> (case rest of [] \<Rightarrow> False | c # _ \<Rightarrow> isWordChar c))"

definition tokenHere :: "jsstring list \<Rightarrow> bool \<Rightarrow> jsstring \<Rightarrow> bool" where
  "tokenHere alts prevWord s =
     (boundary prevWord s \<and>
      list_ex (\<lambda>p. startsWith s p \<and>
                 boundary (if p = [] then prevWord else isWordChar (last p)) (drop (length p) s)) alts)"

fun regexScanToken :: "jsstring list \<Rightarrow> bool \<Rightarrow> jsstring \<Rightarrow> bool" where
  "regexScanToken alts prevWord [] = tokenHere alts prevWord []"
| "regexScanToken alts prevWord (c # cs) =
     (tokenHere alts prevWord (c # cs) \<or> regexScanToken alts (isWordChar c) cs)"

definition regexTestToken :: "jsstring list \<Rightarrow> jsstring \<Rightarrow> bool" where
  "regexTestToken alts s = regexScanToken alts False s"

section \<open>Types of \<open>AutoMBSApp.tsx\<close>\<close>

record Attachment =
  name :: jsstring
  type :: jsstring
  content :: jsstring

text \<open>
  \<open>EvidenceSpan\<close>: the fields \<open>text\<close> and \<open>end\<close> of the source are \<open>span_text\<close> and
  \<open>span_end\<close> here; the optional \<open>field\<close> is an option.
\<close>

record EvidenceSpan =
  span_text :: jsstring
  start :: int
  span_end :: int
  field :: "jsstring option"

record Suggestion =
  item :: jsstring
  description :: jsstring
  confidence :: rat
  reasoning :: jsstring
  evidence :: "EvidenceSpan list"
  conflicts :: "jsstring list option"
  allowedWith :: "jsstring list option"
  warnings :: "jsstring list option"

record CoverageBlock =
  eligible_suggested :: int
  eligible_total :: int
  missed :: "jsstring list option"

record AccuracyBlock =
  correct :: "int option"
  incorrect :: "int option"

record Meta =
  prompt_version :: "jsstring option"
  rule_version :: "jsstring option"
  model :: "jsstring option"

text \<open>The object that \<open>mockSuggest\<close> stores in the untyped \<open>raw_debug\<close> field.\<close>

record RawDebug =
  matched_rules :: "jsstring list"
  attachment_names :: "jsstring list option"

record ApiSuggestionResponse =
  suggestions :: "Suggestion list"
  coverage :: "CoverageBlock option"
  accuracy :: "AccuracyBlock option"
  meta :: "Meta option"
  raw_debug :: "RawDebug option"

text \<open>
  \<open>Message\<close>: a user message (id, noteText, createdAt, episodeId) or an assistant
  message (id, createdAt, response, forMessageId).
\<close>

datatype Message =
  User jsstring jsstring jsstring "jsstring option"
| Assistant jsstring jsstring ApiSuggestionResponse jsstring

record Rule =
  test :: "jsstring \<Rightarrow> bool"
  build :: "jsstring \<Rightarrow> Suggestion"

record Part =
  str :: jsstring
  mark :: "bool option"

section \<open>\<open>findEvidenceSpans\<close>\<close>

text \<open>
  The body of the \<open>forEach\<close>: the needle is searched in the lower-cased text, and the
  index found there is used to cut the original text.
\<close>

definition pushSpan :: "jsstring \<Rightarrow> jsstring \<Rightarrow> EvidenceSpan list \<Rightarrow> jsstring \<Rightarrow> EvidenceSpan list" where
  "pushSpan text lower spans n =
     (let idx = indexOf lower (toLowerCase n)
      in if idx \<ge> 0
         then spans @ [\<lparr> span_text = slice text idx (idx + int (length n)),
                         start = idx,
                         span_end = idx + int (length n),
                         field = Some (js ''noteText'') \<rparr>]
         else spans)"

definition findEvidenceSpans :: "jsstring \<Rightarrow> jsstring list \<Rightarrow> EvidenceSpan list" where
  "findEvidenceSpans text needles =
     (let lower = toLowerCase text in foldl (pushSpan text lower) [] needles)"

section \<open>\<open>mockSuggest\<close>\<close>

text \<open>
  The scanned text: the note, then the content of every attachment whose type starts
  with \<open>text\<close>, each prefixed by a line feed, all joined by line feeds. The parameter
  \<open>attachments\<close> is optional in the source.
\<close>

definition scannedText :: "jsstring \<Rightarrow> Attachment list option \<Rightarrow> jsstring" where
  "scannedText noteText attachments =
     join [0x0A]
       (noteText #
        (case attachments of
           None \<Rightarrow> []
         | Some as \<Rightarrow> map (\<lambda>a. [0x0A] @ content a)
                        (filter (\<lambda>a. startsWith (type a) (js ''text'')) as)))"

text \<open>The six entries of \<open>MOCK_RULES\<close>, in the order of the array.\<close>

definition telehealthRule :: Rule where
  "telehealthRule =
     \<lparr> test = regexTestCI [js ''telehealth'', js ''video'', js ''phone''],
       build = (\<lambda>s.
         \<lparr> item = (if regexTestToken [js ''20'', js ''25'', js ''30''] s
                    then js ''91836'' else js ''91823''),
           description = js ''Telehealth attendance by a GP (Level B'' @ [0xE2, 0x20AC, 0x201C] @ js ''C)'',
           confidence = 78 / 100,
           reasoning = js ''Telehealth modality and consult length suggests Level B/C telehealth.'',
           evidence = findEvidenceSpans s [js ''Telehealth'', js ''video'', js ''phone'', js ''mins''],
           conflicts = None,
           allowedWith = None,
           warnings = Some [js ''Confirm patient location and telehealth eligibility.''] \<rparr>) \<rparr>"

definition suturingRule :: Rule where
  "suturingRule =
     \<lparr> test = regexTestCI [js ''suturing'', js ''laceration'', js ''wound''],
       build = (\<lambda>s.
         \<lparr> item = js ''30026'',
           description = js ''Repair of superficial laceration (suturing)'',
           confidence = 82 / 100,
           reasoning = js ''Simple suturing with local anaesthetic documented.'',
           evidence = findEvidenceSpans s
             [js ''laceration'', js ''suturing'', js ''local anaesthetic'', js ''nylon''],
           conflicts = None,
           allowedWith = None,
           warnings = Some [js ''Ensure length/complexity meet descriptor; same-site rules apply.''] \<rparr>) \<rparr>"

definition ecgRule :: Rule where
  "ecgRule =
     \<lparr> test = regexTestCI [js ''ecg''],
       build = (\<lambda>s.
         \<lparr> item = js ''11700'',
           description = js ''Electrocardiogram tracing and report'',
           confidence = 74 / 100,
           reasoning = js ''ECG performed and interpreted.'',
           evidence = findEvidenceSpans s [js ''ECG'', js ''sinus rhythm'', js ''palpitations''],
           conflicts = None,
           allowedWith = None,
           warnings = None \<rparr>) \<rparr>"

definition pathologyRule :: Rule where
  "pathologyRule =
     \<lparr> test = regexTestCI
         [js ''throat swab'', js ''FBC'', js ''CRP'', js ''pathology'', js ''culture''],
       build = (\<lambda>s.
         \<lparr> item = js ''65111'',
           description = js ''Pathology test request (example placeholder)'',
           confidence = 65 / 100,
           reasoning = js ''Pathology orders present (throat swab, FBC/CRP).'',
           evidence = findEvidenceSpans s [js ''throat swab'', js ''FBC'', js ''CRP'', js ''culture''],
           conflicts = None,
           allowedWith = None,
           warnings = None \<rparr>) \<rparr>"

definition imagingRule :: Rule where
  "imagingRule =
     \<lparr> test = regexTestCI [js ''x-ray'', js ''imaging'', js ''report''],
       build = (\<lambda>s.
         \<lparr> item = js ''58503'',
           description = js ''Diagnostic imaging service (example)'',
           confidence = 7 / 10,
           reasoning = js ''Imaging performed and report available.'',
           evidence = findEvidenceSpans s [js ''X-ray'', js ''imaging'', js ''report''],
           conflicts = None,
           allowedWith = None,
           warnings = None \<rparr>) \<rparr>"

definition consultRule :: Rule where
  "consultRule =
     \<lparr> test = regexTestCI
         [js ''consult'', js ''in-person'', js ''mins'', js ''review'', js ''time'',
          js ''history'', js ''exam''],
       build = (\<lambda>s.
         \<lparr> item = (if regexTestToken [js ''25'', js ''30''] s then js ''36'' else js ''23''),
           description = js ''GP attendance (Level B/C)'',
           confidence = 68 / 100,
           reasoning = js ''Consultation documented with history/exam and time noted.'',
           evidence = findEvidenceSpans s
             [js ''consult'', js ''in-person'', js ''mins'', js ''review'', js ''history'',
              js ''exam'', js ''time''],
           conflicts = None,
           allowedWith = None,
           warnings = None \<rparr>) \<rparr>"

definition MOCK_RULES :: "Rule list" where
  "MOCK_RULES =
     [telehealthRule, suturingRule, ecgRule, pathologyRule, imagingRule, consultRule]"

text \<open>\<open>MOCK_RULES.filter((r) => r.test(text)).map((r) => r.build(text))\<close>\<close>

definition mockHits :: "jsstring \<Rightarrow> Suggestion list" where
  "mockHits text = map (\<lambda>r. build r text) (filter (\<lambda>r. test r text) MOCK_RULES)"

text \<open>
  The conflict pass: when both an item \<open>23\<close> and an item \<open>36\<close> are among the hits, every
  hit with one of these items gets the other one as its \<open>conflicts\<close>. The source updates
  the objects in place; the model returns the updated list.
\<close>

definition conflictPass :: "Suggestion list \<Rightarrow> Suggestion list" where
  "conflictPass hits =
     (let has23 = list_ex (\<lambda>h. item h = js ''23'') hits;
          has36 = list_ex (\<lambda>h. item h = js ''36'') hits
      in if has23 \<and> has36
         then map (\<lambda>h. if item h = js ''23'' then h\<lparr>conflicts := Some [js ''36'']\<rparr>
                        else if item h = js ''36'' then h\<lparr>conflicts := Some [js ''23'']\<rparr>
                        else h) hits
         else hits)"

text \<open>The coverage block built from the hits.\<close>

definition mockCoverage :: "Suggestion list \<Rightarrow> CoverageBlock" where
  "mockCoverage hits =
     \<lparr> eligible_suggested = int (length hits),
       eligible_total = max (int (length hits)) 3,
       missed = Some (if int (length hits) \<ge> 3 then []
                      else slice [js ''(example) spirometry'', js ''(example) care plan'']
                             0 (3 - int (length hits))) \<rparr>"

definition mockSuggest :: "jsstring \<Rightarrow> Attachment list option \<Rightarrow> ApiSuggestionResponse" where
  "mockSuggest noteText attachments =
     (let text = scannedText noteText attachments;
          hits = conflictPass (mockHits text)
      in \<lparr> suggestions = hits,
           coverage = Some (mockCoverage hits),
           accuracy = None,
           meta = Some \<lparr> prompt_version = Some (js ''v-mock-1''),
                         rule_version = Some (js ''mock-2025-07''),
                         model = Some (js ''mock'') \<rparr>,
           raw_debug = Some \<lparr> matched_rules = map item hits,
                              attachment_names = map_option (map name) attachments \<rparr> \<rparr>)"

section \<open>\<open>HighlightedNote\<close>\<close>

text \<open>
  \<open>collectEvidenceSpans\<close>: the evidence of every suggestion of every assistant message,
  in order, kept when its \<open>field\<close> is \<open>noteText\<close> (\<open>start\<close> and \<open>end\<close> are numbers by the
  type \<open>EvidenceSpan\<close>).
\<close>

definition collectEvidenceSpans :: "Message list \<Rightarrow> EvidenceSpan list" where
  "collectEvidenceSpans messages =
     concat (map (\<lambda>m. case m of
                    User _ _ _ _ \<Rightarrow> []
                  | Assistant _ _ response _ \<Rightarrow>
                      concat (map (\<lambda>s. filter (\<lambda>e. field e = Some (js ''noteText'')) (evidence s))
                                (suggestions response)))
            messages)"

text \<open>
  One turn of the \<open>for\<close> loop over the ordered spans; the state is the list \<open>parts\<close> and
  the cursor \<open>i\<close>.
\<close>

definition sweepStep :: "jsstring \<Rightarrow> Part list \<times> int \<Rightarrow> EvidenceSpan \<Rightarrow> Part list \<times> int" where
  "sweepStep text st sp =
     (let parts = fst st; i = snd st;
          parts1 = (if start sp > i
                    then parts @ [\<lparr> str = slice text i (start sp), mark = None \<rparr>]
                    else parts);
          parts2 = parts1 @ [\<lparr> str = slice text (start sp) (min (span_end sp) (int (length text))),
                               mark = Some True \<rparr>]
      in (parts2, span_end sp))"

text \<open>
  The parts computed from the spans: a stable sort by \<open>start\<close>, the loop, and the rest
  of the text after the cursor.
\<close>

definition highlightParts :: "jsstring \<Rightarrow> EvidenceSpan list \<Rightarrow> Part list" where
  "highlightParts text spans =
     (let ordered = sort_key start spans;
          st = foldl (sweepStep text) ([], 0) ordered;
          parts = fst st; i = snd st
      in if i < int (length text)
         then parts @ [\<lparr> str = sliceFrom text i, mark = None \<rparr>]
         else parts)"

text \<open>
  The component renders the note as a sequence of runs of text. When highlighting is
  off or there is no span, it renders the text alone, here one unmarked part.
\<close>

definition HighlightedNote :: "jsstring \<Rightarrow> Message list \<Rightarrow> bool \<Rightarrow> Part list" where
  "HighlightedNote text messages show =
     (let spans = collectEvidenceSpans messages
      in if \<not> show \<or> length spans = 0
         then [\<lparr> str = text, mark = None \<rparr>]
         else highlightParts text spans)"

text \<open>The characters shown on screen: the parts one after the other.\<close>

definition renderedText :: "Part list \<Rightarrow> jsstring" where
  "renderedText parts = concat (map str parts)"

text \<open>
  Spans in sweep order that do not overlap: each starts at or after the cursor left by
  the one before it and does not end before it starts.
\<close>

fun separated :: "int \<Rightarrow> EvidenceSpan list \<Rightarrow> bool" where
  "separated i [] = True"
| "separated i (sp # sps) = (i \<le> start sp \<and> start sp \<le> span_end sp \<and> separated (span_end sp) sps)"

section \<open>Searching and slicing\<close>

lemma startsWith_length: "startsWith s p \<Longrightarrow> length p \<le> length s"
  unfolding startsWith_def by (metis length_take min.cobounded1)

text \<open>
  A result other than \<open>-1\<close> is the first position at which the needle starts, and the
  needle fits into the string there.
\<close>

lemma indexOfFrom_found:
  "indexOfFrom s n k \<noteq> -1 \<Longrightarrow> 0 \<le> k \<Longrightarrow>
   \<exists>i. indexOfFrom s n k = k + int i \<and> i + length n \<le> length s \<and>
       startsWith (drop i s) n \<and> (\<forall>j<i. \<not> startsWith (drop j s) n)"
proof (induction s arbitrary: k)
  case Nil
  then have "n = []" by (simp split: if_splits)
  then show ?case by (simp add: startsWith_def)
next
  case (Cons c cs)
  show ?case
  proof (cases "startsWith (c # cs) n")
    case True
    then have "indexOfFrom (c # cs) n k = k + int 0" by simp
    moreover have "0 + length n \<le> length (c # cs)" using True startsWith_length by fastforce
    ultimately show ?thesis using True by (intro exI[of _ 0]) simp
  next
    case False
    then have eq: "indexOfFrom (c # cs) n k = indexOfFrom cs n (k + 1)" by simp
    with Cons.prems have "indexOfFrom cs n (k + 1) \<noteq> -1" "0 \<le> k + 1" by simp_all
    from Cons.IH[OF this] obtain i where i:
      "indexOfFrom cs n (k + 1) = k + 1 + int i" "i + length n \<le> length cs"
      "startsWith (drop i cs) n" "\<forall>j<i. \<not> startsWith (drop j cs) n" by blast
    have "\<forall>j<Suc i. \<not> startsWith (drop j (c # cs)) n"
    proof (intro allI impI)
      fix j assume "j < Suc i"
      then show "\<not> startsWith (drop j (c # cs)) n"
        using False i(4) by (cases j) simp_all
    qed
    then show ?thesis using eq i by (intro exI[of _ "Suc i"]) simp
  qed
qed

lemma indexOfFrom_absent:
  "indexOfFrom s n k = -1 \<Longrightarrow> 0 \<le> k \<Longrightarrow> j \<le> length s \<Longrightarrow> \<not> startsWith (drop j s) n"
proof (induction s arbitrary: k j)
  case Nil
  then show ?case by (simp add: startsWith_def split: if_splits)
next
  case (Cons c cs)
  from Cons.prems have ns: "\<not> startsWith (c # cs) n" and r: "indexOfFrom cs n (k + 1) = -1"
    by (auto split: if_splits)
  show ?case
  proof (cases j)
    case 0
    then show ?thesis using ns by simp
  next
    case (Suc j')
    then show ?thesis using Cons.IH[OF r, of j'] Cons.prems by simp
  qed
qed

lemma indexOf_empty: "indexOf s [] = 0"
  by (cases s) (simp_all add: indexOf_def startsWith_def)

lemma slice_inside:
  "i + m \<le> length xs \<Longrightarrow> slice xs (int i) (int i + int m) = take m (drop i xs)"
  by (simp add: slice_def relIndex_def Let_def nat_add_distrib min_def)

lemma toLowerCase_Nil: "toLowerCase [] = []"
  by (simp add: toLowerCase_def)

text \<open>Of the case mapping as reproduced here, only U+0130 changes the length.\<close>

lemma length_toLowerCase_eq: "0x130 \<notin> set s \<Longrightarrow> length (toLowerCase s) = length s"
  by (induction s) (simp_all add: toLowerCase_def toLowerUnit_def)

lemma latin1_no_dotted_I: "\<forall>c\<in>set s. c \<le> (0xFF :: code_unit) \<Longrightarrow> 0x130 \<notin> set s"
  by auto

section \<open>Properties of \<open>findEvidenceSpans\<close>\<close>

text \<open>The loop appends to the accumulator, so the needles can be treated one at a time.\<close>

lemma foldl_pushSpan_acc:
  "foldl (pushSpan text lower) acc ns = acc @ foldl (pushSpan text lower) [] ns"
proof (induction ns arbitrary: acc)
  case Nil
  then show ?case by simp
next
  case (Cons n ns)
  have "foldl (pushSpan text lower) (pushSpan text lower acc n) ns =
        pushSpan text lower acc n @ foldl (pushSpan text lower) [] ns"
    by (rule Cons.IH)
  moreover have "foldl (pushSpan text lower) (pushSpan text lower [] n) ns =
        pushSpan text lower [] n @ foldl (pushSpan text lower) [] ns"
    by (rule Cons.IH)
  moreover have "pushSpan text lower acc n = acc @ pushSpan text lower [] n"
    by (simp add: pushSpan_def Let_def)
  ultimately show ?case by simp
qed

lemma findEvidenceSpans_Nil: "findEvidenceSpans text [] = []"
  by (simp add: findEvidenceSpans_def)

lemma findEvidenceSpans_Cons:
  "findEvidenceSpans text (n # ns) = findEvidenceSpans text [n] @ findEvidenceSpans text ns"
  unfolding findEvidenceSpans_def Let_def
  using foldl_pushSpan_acc[of "text" "toLowerCase text" "pushSpan text (toLowerCase text) [] n" ns]
  by simp

lemma findEvidenceSpans_append:
  "findEvidenceSpans text (ns @ ms) = findEvidenceSpans text ns @ findEvidenceSpans text ms"
proof (induction ns)
  case Nil
  then show ?case by (simp add: findEvidenceSpans_Nil)
next
  case (Cons n ns)
  then show ?case
    using findEvidenceSpans_Cons[of "text" n "ns @ ms"] findEvidenceSpans_Cons[of "text" n ns]
    by simp
qed

lemma findEvidenceSpans_single:
  "findEvidenceSpans text [n] =
     (let idx = indexOf (toLowerCase text) (toLowerCase n)
      in if idx \<ge> 0
         then [\<lparr> span_text = slice text idx (idx + int (length n)), start = idx,
                  span_end = idx + int (length n), field = Some (js ''noteText'') \<rparr>]
         else [])"
  by (simp add: findEvidenceSpans_def pushSpan_def Let_def)


lemma findEvidenceSpans_empty_single:
  "findEvidenceSpans text [[]] =
     [\<lparr> span_text = [], start = 0, span_end = 0, field = Some (js ''noteText'') \<rparr>]"
  by (simp add: findEvidenceSpans_single toLowerCase_Nil indexOf_empty slice_def relIndex_def)

subsection \<open>The empty needle\<close>

text \<open>
  Claim C4 says that an empty needle never matches. In the code \<open>indexOf\<close> finds the
  empty needle at position 0, which passes the test \<open>idx >= 0\<close>: for the text \<open>abc\<close>
  and the single needle \<open>""\<close> one span is emitted.
\<close>

theorem findEvidenceSpans_empty_needle_counterexample:
  "findEvidenceSpans (js ''abc'') [js ''''] =
     [\<lparr> span_text = js '''', start = 0, span_end = 0, field = Some (js ''noteText'') \<rparr>]"
  by (simp add: findEvidenceSpans_single js_def toLowerCase_def toLowerUnit_def indexOf_def
      startsWith_def slice_def relIndex_def)

text \<open>
  Claim C4, amended: for every text, every empty needle in the list of needles yields
  exactly one span, with empty text and \<open>start = end = 0\<close>, at the needle's place in the
  output. The function has a result for every text and every list of needles: none of
  its steps can fail.
\<close>

theorem findEvidenceSpans_empty_needle:
  "findEvidenceSpans text (ns @ [] # ms) =
     findEvidenceSpans text ns @
     \<lparr> span_text = [], start = 0, span_end = 0, field = Some (js ''noteText'') \<rparr> #
     findEvidenceSpans text ms"
  using findEvidenceSpans_append[of "text" ns "[] # ms"] findEvidenceSpans_Cons[of "text" "[]" ms]
    findEvidenceSpans_empty_single[of "text"]
  by simp

subsection \<open>The invariant of the emitted spans\<close>




section \<open>The rule catalogue\<close>

lemma test_MOCK_RULES:
  "test telehealthRule = regexTestCI [js ''telehealth'', js ''video'', js ''phone'']"
  "test suturingRule = regexTestCI [js ''suturing'', js ''laceration'', js ''wound'']"
  "test ecgRule = regexTestCI [js ''ecg'']"
  "test pathologyRule =
     regexTestCI [js ''throat swab'', js ''FBC'', js ''CRP'', js ''pathology'', js ''culture'']"
  "test imagingRule = regexTestCI [js ''x-ray'', js ''imaging'', js ''report'']"
  "test consultRule =
     regexTestCI [js ''consult'', js ''in-person'', js ''mins'', js ''review'', js ''time'',
       js ''history'', js ''exam'']"
  by (simp_all add: telehealthRule_def suturingRule_def ecgRule_def pathologyRule_def
      imagingRule_def consultRule_def)

lemma item_build:
  "item (build telehealthRule s) =
     (if regexTestToken [js ''20'', js ''25'', js ''30''] s then js ''91836'' else js ''91823'')"
  "item (build suturingRule s) = js ''30026''"
  "item (build ecgRule s) = js ''11700''"
  "item (build pathologyRule s) = js ''65111''"
  "item (build imagingRule s) = js ''58503''"
  "item (build consultRule s) =
     (if regexTestToken [js ''25'', js ''30''] s then js ''36'' else js ''23'')"
  by (simp_all add: telehealthRule_def suturingRule_def ecgRule_def pathologyRule_def
      imagingRule_def consultRule_def)

lemma evidence_build:
  "evidence (build telehealthRule s) =
     findEvidenceSpans s [js ''Telehealth'', js ''video'', js ''phone'', js ''mins'']"
  "evidence (build consultRule s) =
     findEvidenceSpans s
       [js ''consult'', js ''in-person'', js ''mins'', js ''review'', js ''history'',
        js ''exam'', js ''time'']"
  by (simp_all add: telehealthRule_def consultRule_def)

lemma conflicts_build:
  "conflicts (build telehealthRule s) = None"
  "conflicts (build suturingRule s) = None"
  "conflicts (build ecgRule s) = None"
  "conflicts (build pathologyRule s) = None"
  "conflicts (build imagingRule s) = None"
  "conflicts (build consultRule s) = None"
  by (simp_all add: telehealthRule_def suturingRule_def ecgRule_def pathologyRule_def
      imagingRule_def consultRule_def)

text \<open>The item codes of the catalogue are pairwise different from \<open>23\<close> and \<open>36\<close>.\<close>

lemma item_codes_distinct:
  "js ''91836'' \<noteq> js ''23''" "js ''91823'' \<noteq> js ''23''" "js ''30026'' \<noteq> js ''23''"
  "js ''11700'' \<noteq> js ''23''" "js ''65111'' \<noteq> js ''23''" "js ''58503'' \<noteq> js ''23''"
  "js ''91836'' \<noteq> js ''36''" "js ''91823'' \<noteq> js ''36''" "js ''30026'' \<noteq> js ''36''"
  "js ''11700'' \<noteq> js ''36''" "js ''65111'' \<noteq> js ''36''" "js ''58503'' \<noteq> js ''36''"
  "js ''23'' \<noteq> js ''36''" "js ''36'' \<noteq> js ''23''"
  by (simp_all add: js_def)

lemma mockHits_unfold:
  "mockHits s =
     (if test telehealthRule s then [build telehealthRule s] else []) @
     (if test suturingRule s then [build suturingRule s] else []) @
     (if test ecgRule s then [build ecgRule s] else []) @
     (if test pathologyRule s then [build pathologyRule s] else []) @
     (if test imagingRule s then [build imagingRule s] else []) @
     (if test consultRule s then [build consultRule s] else [])"
  by (simp add: mockHits_def MOCK_RULES_def)

lemma mockHits_consult_only:
  "filter (\<lambda>h. item h = js ''23'' \<or> item h = js ''36'') (mockHits s) =
     (if test consultRule s then [build consultRule s] else [])"
  unfolding mockHits_unfold
  by (simp add: item_build item_codes_distinct)

lemma mockHits_not_both:
  "\<not> (list_ex (\<lambda>h. item h = js ''23'') (mockHits s) \<and> list_ex (\<lambda>h. item h = js ''36'') (mockHits s))"
  unfolding mockHits_unfold
  by (simp add: item_build item_codes_distinct)

lemma mockHits_conflicts: "h \<in> set (mockHits s) \<Longrightarrow> conflicts h = None"
  unfolding mockHits_unfold
  by (auto simp: conflicts_build split: if_splits)

lemma conflictPass_id:
  "\<not> (list_ex (\<lambda>h. item h = js ''23'') hits \<and> list_ex (\<lambda>h. item h = js ''36'') hits) \<Longrightarrow>
   conflictPass hits = hits"
  by (auto simp: conflictPass_def Let_def)

lemma suggestions_mockSuggest:
  "suggestions (mockSuggest noteText attachments) = mockHits (scannedText noteText attachments)"
  using conflictPass_id[OF mockHits_not_both] by (simp add: mockSuggest_def Let_def)

text \<open>
  The conflict pass by itself: on any list of hits that holds both an item \<open>23\<close> and an
  item \<open>36\<close>, every \<open>23\<close> entry gets the conflicts \<open>["36"]\<close> and every \<open>36\<close> entry the
  conflicts \<open>["23"]\<close>. No list of hits of the catalogue is such a list.
\<close>

lemma conflictPass_both:
  assumes "list_ex (\<lambda>h. item h = js ''23'') hits" "list_ex (\<lambda>h. item h = js ''36'') hits"
    and "h \<in> set (conflictPass hits)"
  shows "(item h = js ''23'' \<longrightarrow> conflicts h = Some [js ''36'']) \<and>
         (item h = js ''36'' \<longrightarrow> conflicts h = Some [js ''23''])"
  using assms by (auto simp: conflictPass_def Let_def item_codes_distinct)

section \<open>Evaluation\<close>

lemma literalAtCI_Nil: "literalAtCI [] s = True"
  by (simp add: literalAtCI_def)

lemma literalAtCI_Cons_Nil: "literalAtCI (p # ps) [] = False"
  by (simp add: literalAtCI_def)

lemma literalAtCI_Cons_Cons:
  "literalAtCI (p # ps) (c # cs) = (if canonicalize c = canonicalize p then literalAtCI ps cs else False)"
  by (auto simp: literalAtCI_def)

lemmas regex_eval = js_def literalAtCI_Nil literalAtCI_Cons_Nil literalAtCI_Cons_Cons canonicalize_def
  regexTestToken_def tokenHere_def boundary_def isWordChar_def startsWith_def

lemmas span_eval = js_def findEvidenceSpans_def pushSpan_def toLowerCase_def toLowerUnit_def
  indexOf_def startsWith_def slice_def relIndex_def

lemma scannedText_None: "scannedText noteText None = noteText"
  by (simp add: scannedText_def)

subsection \<open>The note \<open>exam 25\<close>\<close>

lemma tests_exam25:
  "\<not> test telehealthRule (js ''exam 25'')" "\<not> test suturingRule (js ''exam 25'')"
  "\<not> test ecgRule (js ''exam 25'')" "\<not> test pathologyRule (js ''exam 25'')"
  "\<not> test imagingRule (js ''exam 25'')" "test consultRule (js ''exam 25'')"
  unfolding test_MOCK_RULES by (simp_all add: regex_eval)

lemma token_exam25: "regexTestToken [js ''25'', js ''30''] (js ''exam 25'')"
  by (simp add: regex_eval)

lemma mockHits_exam25: "mockHits (js ''exam 25'') = [build consultRule (js ''exam 25'')]"
  unfolding mockHits_unfold by (simp add: tests_exam25)

lemma item_exam25: "item (build consultRule (js ''exam 25'')) = js ''36''"
  by (simp add: item_build token_exam25)

subsection \<open>The note \<open>exam\<close>\<close>




subsection \<open>The note \<open>Hello.\<close>\<close>

lemma tests_hello:
  "\<not> test telehealthRule (js ''Hello.'')" "\<not> test suturingRule (js ''Hello.'')"
  "\<not> test ecgRule (js ''Hello.'')" "\<not> test pathologyRule (js ''Hello.'')"
  "\<not> test imagingRule (js ''Hello.'')" "\<not> test consultRule (js ''Hello.'')"
  unfolding test_MOCK_RULES by (simp_all add: regex_eval)

lemma mockHits_hello: "mockHits (js ''Hello.'') = []"
  unfolding mockHits_unfold by (simp add: tests_hello)

section \<open>Conflicts\<close>

text \<open>
  Claim C10: no result of \<open>mockSuggest\<close> holds both an item \<open>23\<close> and an item \<open>36\<close>. Among
  the hits only the consult rule yields a suggestion with one of these items, it yields
  one suggestion, and that suggestion has one item. So the conflict pass changes nothing,
  and every suggestion returned has no \<open>conflicts\<close>.
\<close>

theorem mockSuggest_never_23_and_36:
  "filter (\<lambda>h. item h = js ''23'' \<or> item h = js ''36'') (mockHits text) =
     (if test consultRule text then [build consultRule text] else []) \<and>
   \<not> (list_ex (\<lambda>h. item h = js ''23'') (suggestions (mockSuggest noteText attachments)) \<and>
      list_ex (\<lambda>h. item h = js ''36'') (suggestions (mockSuggest noteText attachments))) \<and>
   conflictPass (mockHits text) = mockHits text \<and>
   (\<forall>h \<in> set (suggestions (mockSuggest noteText attachments)). conflicts h = None)"
  using mockHits_consult_only[of "text"] mockHits_not_both mockHits_conflicts
    conflictPass_id[OF mockHits_not_both]
  by (simp add: suggestions_mockSuggest)

theorem mockSuggest_never_23_and_36_witness:
  "map item (suggestions (mockSuggest (js ''exam 25'') None)) = [js ''36''] \<and>
   map conflicts (suggestions (mockSuggest (js ''exam 25'') None)) = [None]"
proof -
  have s: "suggestions (mockSuggest (js ''exam 25'') None) = [build consultRule (js ''exam 25'')]"
    by (simp add: suggestions_mockSuggest scannedText_None mockHits_exam25)
  from mockSuggest_never_23_and_36[of "js ''exam 25''" "js ''exam 25''" None]
  have "\<forall>h \<in> set (suggestions (mockSuggest (js ''exam 25'') None)). conflicts h = None"
    by blast
  with s show ?thesis by (simp add: item_exam25)
qed



section \<open>The response\<close>

text \<open>
  Claim C8: the response of \<open>mockSuggest\<close> always carries the list of suggestions (a
  list by type, here the hits of the catalogue), a coverage block, a \<open>meta\<close> object whose
  \<open>rule_version\<close> is set, and no \<open>accuracy\<close>.
\<close>

theorem mockSuggest_response_shape:
  "suggestions (mockSuggest noteText attachments) = mockHits (scannedText noteText attachments) \<and>
   coverage (mockSuggest noteText attachments) =
     Some (mockCoverage (suggestions (mockSuggest noteText attachments))) \<and>
   map_option rule_version (meta (mockSuggest noteText attachments)) =
     Some (Some (js ''mock-2025-07'')) \<and>
   accuracy (mockSuggest noteText attachments) = None"
  using suggestions_mockSuggest[of noteText attachments]
  by (simp add: mockSuggest_def Let_def)

section \<open>Coverage\<close>

lemma mockCoverage_eq:
  "mockCoverage hits =
     \<lparr> eligible_suggested = int (length hits),
       eligible_total = max (int (length hits)) 3,
       missed = Some (take (3 - length hits) [js ''(example) spirometry'', js ''(example) care plan'']) \<rparr>"
  by (simp add: mockCoverage_def slice_def relIndex_def Let_def min_def nat_diff_distrib')

text \<open>
  The number of labels asked of the pool is \<open>3 - hits.length\<close>, the difference between
  \<open>eligible_total\<close> and \<open>eligible_suggested\<close>; the pool delivers it for one hit and more,
  and two labels instead of three for no hit.
\<close>

lemma mockCoverage_missed_count:
  "map_option length (missed (mockCoverage hits)) =
     Some (if length hits = 0 then 2 else 3 - length hits)"
  by (cases hits) (auto simp: mockCoverage_eq min_def)

lemma mockCoverage_four:
  "length hits = 4 \<Longrightarrow>
   eligible_total (mockCoverage hits) = 4 \<and> missed (mockCoverage hits) = Some []"
  by (simp add: mockCoverage_eq)

text \<open>
  Claim C2 says that for a list of 0 suggestions the coverage has \<open>eligible_total = 3\<close>
  and three missed labels. The code yields \<open>eligible_total = 3\<close> and the two labels of the
  pool: \<open>slice(0, 3)\<close> of a pool of two is the pool. The note \<open>Hello.\<close> fires no rule and
  gets this coverage from \<open>mockSuggest\<close>.
\<close>

theorem mockCoverage_no_suggestions:
  "mockCoverage [] =
     \<lparr> eligible_suggested = 0, eligible_total = 3,
       missed = Some [js ''(example) spirometry'', js ''(example) care plan''] \<rparr> \<and>
   map_option length (missed (mockCoverage [])) = Some 2 \<and>
   suggestions (mockSuggest (js ''Hello.'') None) = [] \<and>
   coverage (mockSuggest (js ''Hello.'') None) = Some (mockCoverage [])"
proof -
  have s: "suggestions (mockSuggest (js ''Hello.'') None) = []"
    by (simp add: suggestions_mockSuggest scannedText_None mockHits_hello)
  have "coverage (mockSuggest (js ''Hello.'') None) =
      Some (mockCoverage (suggestions (mockSuggest (js ''Hello.'') None)))"
    by (simp add: mockSuggest_def Let_def)
  with s show ?thesis by (simp add: mockCoverage_eq)
qed

section \<open>Scenario A\<close>

subsection \<open>The note \<open>Telehealth 18 mins via video.\<close>\<close>

lemma tests_telehealth_note:
  "test telehealthRule (js ''Telehealth 18 mins via video.'')"
  "\<not> test suturingRule (js ''Telehealth 18 mins via video.'')"
  "\<not> test ecgRule (js ''Telehealth 18 mins via video.'')"
  "\<not> test pathologyRule (js ''Telehealth 18 mins via video.'')"
  "\<not> test imagingRule (js ''Telehealth 18 mins via video.'')"
  "test consultRule (js ''Telehealth 18 mins via video.'')"
  unfolding test_MOCK_RULES by (simp_all add: regex_eval)

lemma tokens_telehealth_note:
  "\<not> regexTestToken [js ''20'', js ''25'', js ''30''] (js ''Telehealth 18 mins via video.'')"
  "\<not> regexTestToken [js ''25'', js ''30''] (js ''Telehealth 18 mins via video.'')"
  by (simp_all add: regex_eval)

lemma mockHits_telehealth_note:
  "mockHits (js ''Telehealth 18 mins via video.'') =
     [build telehealthRule (js ''Telehealth 18 mins via video.''),
      build consultRule (js ''Telehealth 18 mins via video.'')]"
  unfolding mockHits_unfold by (simp add: tests_telehealth_note)

lemma items_telehealth_note:
  "item (build telehealthRule (js ''Telehealth 18 mins via video.'')) = js ''91823''"
  "item (build consultRule (js ''Telehealth 18 mins via video.'')) = js ''23''"
  by (simp_all add: item_build tokens_telehealth_note)

lemma evidence_telehealth_note:
  "evidence (build telehealthRule (js ''Telehealth 18 mins via video.'')) =
     [\<lparr> span_text = js ''Telehealth'', start = 0, span_end = 10, field = Some (js ''noteText'') \<rparr>,
      \<lparr> span_text = js ''video'', start = 23, span_end = 28, field = Some (js ''noteText'') \<rparr>,
      \<lparr> span_text = js ''mins'', start = 14, span_end = 18, field = Some (js ''noteText'') \<rparr>]"
  "evidence (build consultRule (js ''Telehealth 18 mins via video.'')) =
     [\<lparr> span_text = js ''mins'', start = 14, span_end = 18, field = Some (js ''noteText'') \<rparr>]"
  unfolding evidence_build by (simp_all add: span_eval)

lemma suggestions_telehealth_note:
  "suggestions (mockSuggest (js ''Telehealth 18 mins via video.'') None) =
     [build telehealthRule (js ''Telehealth 18 mins via video.''),
      build consultRule (js ''Telehealth 18 mins via video.'')]"
  "suggestions (mockSuggest (js ''Telehealth 18 mins via video.'') (Some [])) =
     [build telehealthRule (js ''Telehealth 18 mins via video.''),
      build consultRule (js ''Telehealth 18 mins via video.'')]"
  by (simp_all add: suggestions_mockSuggest scannedText_def mockHits_telehealth_note)

text \<open>
  Claim C1 says that the note \<open>Telehealth 18 mins via video.\<close> without attachments
  gets exactly one suggestion. The trigger of the consult rule contains \<open>mins\<close>, so that
  rule fires too: there are two suggestions.
\<close>

theorem scenario_A_counterexample:
  "length (suggestions (mockSuggest (js ''Telehealth 18 mins via video.'') None)) = 2"
  by (simp add: suggestions_telehealth_note)

text \<open>
  Claim C1, amended: for the note \<open>Telehealth 18 mins via video.\<close> without attachments
  (the parameter left out, or an empty list) \<open>mockSuggest\<close> returns exactly two
  suggestions. The first has item \<open>91823\<close> and as evidence the spans located for
  \<open>Telehealth\<close>, \<open>video\<close> and \<open>mins\<close>, in this order; the second has item \<open>23\<close> and as
  evidence the span located for \<open>mins\<close>.
\<close>

theorem scenario_A:
  "map (\<lambda>s. (item s, map (\<lambda>e. (span_text e, start e, span_end e)) (evidence s)))
     (suggestions (mockSuggest (js ''Telehealth 18 mins via video.'') None)) =
     [(js ''91823'', [(js ''Telehealth'', 0, 10), (js ''video'', 23, 28), (js ''mins'', 14, 18)]),
      (js ''23'', [(js ''mins'', 14, 18)])] \<and>
   suggestions (mockSuggest (js ''Telehealth 18 mins via video.'') (Some [])) =
     suggestions (mockSuggest (js ''Telehealth 18 mins via video.'') None)"
  by (simp add: suggestions_telehealth_note items_telehealth_note evidence_telehealth_note)


section \<open>Highlighting\<close>

lemma renderedText_append: "renderedText (ps @ qs) = renderedText ps @ renderedText qs"
  by (simp add: renderedText_def)

lemma renderedText_single: "renderedText [\<lparr> str = s, mark = m \<rparr>] = s"
  by (simp add: renderedText_def)

lemma slice_nat: "0 \<le> a \<Longrightarrow> a \<le> b \<Longrightarrow> b \<le> int (length xs) \<Longrightarrow>
  slice xs a b = take (nat b - nat a) (drop (nat a) xs)"
proof -
  assume "0 \<le> a" "a \<le> b" "b \<le> int (length xs)"
  then have "nat a \<le> length xs" "nat b \<le> length xs" "\<not> a < 0" "\<not> b < 0" by linarith+
  then show ?thesis by (simp add: slice_def relIndex_def Let_def min_def)
qed

lemma take_slice: "0 \<le> a \<Longrightarrow> a \<le> b \<Longrightarrow> b \<le> int (length xs) \<Longrightarrow>
  take (nat a) xs @ slice xs a b = take (nat b) xs"
proof -
  assume h: "0 \<le> a" "a \<le> b" "b \<le> int (length xs)"
  then have "nat b = nat a + (nat b - nat a)" by simp
  then have "take (nat b) xs = take (nat a) xs @ take (nat b - nat a) (drop (nat a) xs)"
    by (metis take_add)
  with h show ?thesis by (simp add: slice_nat)
qed

lemma sweep_prefix:
  "separated i sps \<Longrightarrow> 0 \<le> i \<Longrightarrow> \<forall>sp\<in>set sps. span_end sp \<le> int (length text) \<Longrightarrow>
   i \<le> int (length text) \<Longrightarrow> renderedText parts = take (nat i) text \<Longrightarrow>
   renderedText (fst (foldl (sweepStep text) (parts, i) sps)) =
     take (nat (snd (foldl (sweepStep text) (parts, i) sps))) text \<and>
   0 \<le> snd (foldl (sweepStep text) (parts, i) sps) \<and>
   snd (foldl (sweepStep text) (parts, i) sps) \<le> int (length text)"
proof (induction sps arbitrary: i parts)
  case Nil
  then show ?case by simp
next
  case (Cons sp sps)
  from Cons.prems have b: "i \<le> start sp" "start sp \<le> span_end sp" "separated (span_end sp) sps"
    "span_end sp \<le> int (length text)" "0 \<le> i" by simp_all
  let ?st = "sweepStep text (parts, i) sp"
  have snd_st: "snd ?st = span_end sp" by (simp add: sweepStep_def Let_def)
  have "renderedText (fst ?st) = take (nat (span_end sp)) text"
  proof (cases "start sp > i")
    case True
    have "renderedText (fst ?st) =
        (take (nat i) text @ slice text i (start sp)) @ slice text (start sp) (span_end sp)"
      using True b Cons.prems(5)
      by (simp add: sweepStep_def Let_def renderedText_def min_def)
    also have "\<dots> = take (nat (start sp)) text @ slice text (start sp) (span_end sp)"
      using take_slice[of i "start sp" "text"] b by simp
    also have "\<dots> = take (nat (span_end sp)) text"
      using take_slice[of "start sp" "span_end sp" "text"] b by simp
    finally show ?thesis .
  next
    case False
    with b have eq: "start sp = i" by simp
    have "renderedText (fst ?st) = take (nat i) text @ slice text (start sp) (span_end sp)"
      using False b Cons.prems(5)
      by (simp add: sweepStep_def Let_def renderedText_def min_def)
    also have "\<dots> = take (nat (span_end sp)) text"
      using take_slice[of "start sp" "span_end sp" "text"] b eq by simp
    finally show ?thesis .
  qed
  moreover have "foldl (sweepStep text) (parts, i) (sp # sps) =
      foldl (sweepStep text) (fst ?st, span_end sp) sps"
    using snd_st by (metis foldl_Cons prod.collapse)
  moreover have "0 \<le> span_end sp" using b by simp
  moreover have "\<forall>sp\<in>set sps. span_end sp \<le> int (length text)" using Cons.prems(3) by simp
  ultimately show ?case
    using Cons.IH[of "span_end sp" "fst ?st"] b by simp
qed

text \<open>
  When the ordered spans do not overlap (each starts at or after the end of the one
  before it, none ends before it starts) and all end within the text, the parts put
  together are the note text.
\<close>

lemma highlightParts_separated:
  assumes "separated 0 (sort_key start spans)"
    and "\<forall>sp\<in>set spans. span_end sp \<le> int (length text)"
  shows "renderedText (highlightParts text spans) = text"
proof -
  let ?st = "foldl (sweepStep text) ([], 0) (sort_key start spans)"
  have "\<forall>sp\<in>set (sort_key start spans). span_end sp \<le> int (length text)"
    using assms(2) by simp
  with assms(1) have inv: "renderedText (fst ?st) = take (nat (snd ?st)) text"
    "0 \<le> snd ?st" "snd ?st \<le> int (length text)"
    using sweep_prefix[of 0 "sort_key start spans" "text" "[]"] by (simp_all add: renderedText_def)
  show ?thesis
  proof (cases "snd ?st < int (length text)")
    case True
    then have "renderedText (highlightParts text spans) =
        take (nat (snd ?st)) text @ sliceFrom text (snd ?st)"
      using inv by (simp add: highlightParts_def Let_def renderedText_append renderedText_single)
    also have "\<dots> = text"
    proof -
      from inv True have "nat (snd ?st) \<le> length text" "\<not> snd ?st < 0" by linarith+
      then show ?thesis by (simp add: sliceFrom_def relIndex_def min_def)
    qed
    finally show ?thesis .
  next
    case False
    with inv have "nat (snd ?st) = length text" by simp
    with inv False show ?thesis by (simp add: highlightParts_def Let_def)
  qed
qed

lemma spans_telehealth_session:
  "collectEvidenceSpans
     [User (js ''m1'') (js ''Telehealth 18 mins via video.'') (js ''t1'') None,
      Assistant (js ''m2'') (js ''t2'')
        (mockSuggest (js ''Telehealth 18 mins via video.'') None) (js ''m1'')] =
   [\<lparr> span_text = js ''Telehealth'', start = 0, span_end = 10, field = Some (js ''noteText'') \<rparr>,
    \<lparr> span_text = js ''video'', start = 23, span_end = 28, field = Some (js ''noteText'') \<rparr>,
    \<lparr> span_text = js ''mins'', start = 14, span_end = 18, field = Some (js ''noteText'') \<rparr>,
    \<lparr> span_text = js ''mins'', start = 14, span_end = 18, field = Some (js ''noteText'') \<rparr>]"
  by (simp add: collectEvidenceSpans_def suggestions_telehealth_note evidence_telehealth_note)

text \<open>
  Claim C3 says that the parts of the highlighted note, one after the other, are the
  note text whenever the spans lie within the text. Take the note of scenario A and the
  response of \<open>mockSuggest\<close> to it as the only assistant message. Both suggestions carry
  the span of \<open>mins\<close> (14 to 18), so the second copy starts before the cursor, which is
  then at 18; the loop emits its text again, and the note is shown with \<open>minsmins\<close>.
\<close>

theorem HighlightedNote_repeats_overlap:
  "renderedText
     (HighlightedNote (js ''Telehealth 18 mins via video.'')
        [User (js ''m1'') (js ''Telehealth 18 mins via video.'') (js ''t1'') None,
         Assistant (js ''m2'') (js ''t2'')
           (mockSuggest (js ''Telehealth 18 mins via video.'') None) (js ''m1'')]
        True) =
   js ''Telehealth 18 minsmins via video.''"
  unfolding HighlightedNote_def spans_telehealth_session Let_def
  by (simp add: highlightParts_def sweepStep_def renderedText_def slice_def sliceFrom_def
      relIndex_def js_def Let_def)

text \<open>
  Highlighting is on and four spans are collected, each within the 29 code units of
  the note; what is rendered is not the note.
\<close>

theorem HighlightedNote_repeats_overlap_witness:
  "length (collectEvidenceSpans
     [User (js ''m1'') (js ''Telehealth 18 mins via video.'') (js ''t1'') None,
      Assistant (js ''m2'') (js ''t2'')
        (mockSuggest (js ''Telehealth 18 mins via video.'') None) (js ''m1'')]) = 4 \<and>
   length (js ''Telehealth 18 mins via video.'') = 29 \<and>
   renderedText
     (HighlightedNote (js ''Telehealth 18 mins via video.'')
        [User (js ''m1'') (js ''Telehealth 18 mins via video.'') (js ''t1'') None,
         Assistant (js ''m2'') (js ''t2'')
           (mockSuggest (js ''Telehealth 18 mins via video.'') None) (js ''m1'')]
        True) \<noteq>
   js ''Telehealth 18 mins via video.''"
  using HighlightedNote_repeats_overlap spans_telehealth_session
  by (simp add: js_def)

section \<open>Lower-casing and the offsets\<close>

lemma toLowerCase_append: "toLowerCase (a @ b) = toLowerCase a @ toLowerCase b"
  by (simp add: toLowerCase_def)

lemma toLowerCase_take_drop:
  assumes "0x130 \<notin> set s" "i + m \<le> length s"
  shows "toLowerCase (take m (drop i s)) = take m (drop i (toLowerCase s))"
proof -
  have s: "s = take i s @ take m (drop i s) @ drop (i + m) s"
    by (metis append_take_drop_id drop_drop add.commute)
  have a: "0x130 \<notin> set (take i s)" "0x130 \<notin> set (take m (drop i s))"
    using assms(1) by (auto dest: in_set_takeD in_set_dropD)
  have la: "length (toLowerCase (take i s)) = i"
    using length_toLowerCase_eq[OF a(1)] assms(2) by simp
  have lb: "length (toLowerCase (take m (drop i s))) = m"
    using length_toLowerCase_eq[OF a(2)] assms(2) by simp
  have "toLowerCase s = toLowerCase (take i s) @ toLowerCase (take m (drop i s)) @
      toLowerCase (drop (i + m) s)"
    using s toLowerCase_append by metis
  then show ?thesis using la lb by simp
qed

lemma indexOf_cases:
  "indexOf L N = -1 \<and> (\<forall>j. \<not> startsWith (drop j L) N) \<or>
   (\<exists>i. indexOf L N = int i \<and> i + length N \<le> length L \<and> startsWith (drop i L) N \<and>
        (\<forall>j<i. \<not> startsWith (drop j L) N))"
proof (cases "indexOfFrom L N 0 = -1")
  case True
  have "\<not> startsWith (drop j L) N" for j
  proof (cases "j \<le> length L")
    case True
    then show ?thesis using indexOfFrom_absent[OF \<open>indexOfFrom L N 0 = -1\<close>, of j] by simp
  next
    case False
    then have "drop j L = drop (length L) L" by simp
    then show ?thesis
      using indexOfFrom_absent[OF \<open>indexOfFrom L N 0 = -1\<close>, of "length L"] by simp
  qed
  with True show ?thesis by (simp add: indexOf_def)
next
  case False
  from indexOfFrom_found[OF False] show ?thesis by (auto simp: indexOf_def)
qed

text \<open>
  On texts and needles of code units up to U+00FF, where lower-casing maps code unit by
  code unit, a single needle is located as a case-insensitive search should: the first
  occurrence, in the casing of the text, or nothing when there is no occurrence.
\<close>

lemma findEvidenceSpans_single_latin1:
  assumes t: "\<forall>c\<in>set text. c \<le> 0xFF" and n: "\<forall>c\<in>set needle. c \<le> 0xFF"
  shows "((\<exists>i. startsWith (drop i (toLowerCase text)) (toLowerCase needle)) \<longrightarrow>
           (\<exists>i. findEvidenceSpans text [needle] =
                  [\<lparr> span_text = take (length needle) (drop i text), start = int i,
                     span_end = int i + int (length needle), field = Some (js ''noteText'') \<rparr>] \<and>
                i + length needle \<le> length text \<and>
                slice text (int i) (int i + int (length needle)) = take (length needle) (drop i text) \<and>
                toLowerCase (take (length needle) (drop i text)) = toLowerCase needle \<and>
                (\<forall>j<i. \<not> startsWith (drop j (toLowerCase text)) (toLowerCase needle)))) \<and>
         (\<not> (\<exists>i. startsWith (drop i (toLowerCase text)) (toLowerCase needle)) \<longrightarrow>
           findEvidenceSpans text [needle] = [])"
proof -
  let ?L = "toLowerCase text" and ?N = "toLowerCase needle"
  have nt: "0x130 \<notin> set text" and nn: "0x130 \<notin> set needle"
    using t n latin1_no_dotted_I by blast+
  have lt: "length ?L = length text" and ln: "length ?N = length needle"
    using nt nn length_toLowerCase_eq by blast+
  from indexOf_cases[of ?L ?N] show ?thesis
  proof
    assume "indexOf ?L ?N = -1 \<and> (\<forall>j. \<not> startsWith (drop j ?L) ?N)"
    then show ?thesis by (simp add: findEvidenceSpans_single)
  next
    assume "\<exists>i. indexOf ?L ?N = int i \<and> i + length ?N \<le> length ?L \<and> startsWith (drop i ?L) ?N \<and>
        (\<forall>j<i. \<not> startsWith (drop j ?L) ?N)"
    then obtain i where i: "indexOf ?L ?N = int i" "i + length needle \<le> length text"
      "startsWith (drop i ?L) ?N" "\<forall>j<i. \<not> startsWith (drop j ?L) ?N"
      using lt ln by auto
    have sl: "slice text (int i) (int i + int (length needle)) = take (length needle) (drop i text)"
      using slice_inside[OF i(2)] .
    have "toLowerCase (take (length needle) (drop i text)) = take (length needle) (drop i ?L)"
      using toLowerCase_take_drop[OF nt i(2)] .
    also have "\<dots> = ?N" using i(3) ln by (simp add: startsWith_def)
    finally have lc: "toLowerCase (take (length needle) (drop i text)) = ?N" .
    have "findEvidenceSpans text [needle] =
        [\<lparr> span_text = take (length needle) (drop i text), start = int i,
           span_end = int i + int (length needle), field = Some (js ''noteText'') \<rparr>]"
      using i(1) sl by (simp add: findEvidenceSpans_single Let_def)
    with i sl lc show ?thesis by blast
  qed
qed

subsection \<open>Lower-casing that changes the length\<close>

text \<open>
  Claim C6 says that the span found for a needle has, lower-cased, the text of the
  lower-cased needle. Take the text U+0130 followed by \<open> video\<close> (7 code units) and the
  needle \<open>video\<close> of the telehealth rule. The lower-cased text has 8 code units and
  holds the needle at position 3; cutting the original text at 3 gives \<open>ideo\<close>, and the
  end offset 8 lies beyond the text.
\<close>

theorem findEvidenceSpans_dotted_capital_I:
  "toLowerCase (0x130 # js '' video'') = js ''i'' @ 0x307 # js '' video'' \<and>
   findEvidenceSpans (0x130 # js '' video'') [js ''video''] =
     [\<lparr> span_text = js ''ideo'', start = 3, span_end = 8, field = Some (js ''noteText'') \<rparr>] \<and>
   toLowerCase (js ''ideo'') \<noteq> toLowerCase (js ''video'') \<and>
   length (0x130 # js '' video'') = 7"
  by (simp add: span_eval)

end
